theory Spec2Isabelle
  imports Main "HOL-Library.Multiset" "HOL-Library.AList" "HOL-Library.Word"
begin

section \<open>Agent dashboard: attestation classifier, history store, throttled sampler\<close>

text \<open>
  A shallow embedding of the synchronous parts of \<^verbatim>\<open>server.cjs\<close>: the event processing of
  \<^verbatim>\<open>/api/attestations\<close> and \<^verbatim>\<open>/api/dvm\<close>, the history file (\<^verbatim>\<open>loadHistory\<close>,
  \<^verbatim>\<open>saveHistory\<close>, \<^verbatim>\<open>addHistoryPoint\<close>) and the hourly throttle of \<^verbatim>\<open>/api/wallet\<close> and
  \<^verbatim>\<open>/api/trust\<close>. JavaScript values are modelled as follows.
  \<^item> Numbers that the code computes with (\<^verbatim>\<open>created_at\<close>, \<^verbatim>\<open>timestamp\<close>, \<^verbatim>\<open>Date.now()\<close>,
    sampled values) are integers; on integers below \<open>2^53\<close> JavaScript's double arithmetic
    and comparison agree with \<^typ>\<open>int\<close>.
  \<^item> Strings that are only compared for equality (ids, public keys, tags, series keys)
    are \<^typ>\<open>string\<close>. The \<^verbatim>\<open>content\<close> of an event is measured and sliced, so it is kept
    as the sequence of UTF-16 code units that \<^verbatim>\<open>.length\<close> and \<^verbatim>\<open>.slice\<close> count.
  \<^item> \<^verbatim>\<open>undefined\<close> as the result of a lookup is \<^const>\<open>None\<close>; a thrown exception is
    \<^const>\<open>Inl\<close> of a sum type.
  \<^item> \<^verbatim>\<open>Date.now()\<close> and the content of the history file are inputs: functions that read
    them take them as arguments, functions that write the file return its new content.
\<close>

subsection \<open>Events and attestations\<close>

type_synonym js_string = "16 word list"

record event =
  event_id :: string
  pubkey :: string
  created_at :: int
  tags :: "string list list"
  content :: js_string

datatype direction = Given | Received

record attestation =
  att_id :: string
  att_from :: string
  att_to :: "string option"
  att_type :: "string option"
  att_comment :: string
  att_timestamp :: int
  att_direction :: direction

record attestation_batch =
  received :: "attestation list"
  given :: "attestation list"

text \<open>\<^verbatim>\<open>t[i]\<close> on a JavaScript array: \<^verbatim>\<open>undefined\<close> beyond the end.\<close>

definition at_index :: "'a list \<Rightarrow> nat \<Rightarrow> 'a option" where
  "at_index xs i = (if i < length xs then Some (xs ! i) else None)"

text \<open>
  \<^verbatim>\<open>e.tags.find(pred)?.[1]\<close>: the second element of the first tag that satisfies the
  predicate, \<^verbatim>\<open>undefined\<close> when no tag does or that tag has no second element.
\<close>

definition find_tag_value :: "(string list \<Rightarrow> bool) \<Rightarrow> string list list \<Rightarrow> string option" where
  "find_tag_value pred ts = (case find pred ts of None \<Rightarrow> None | Some t \<Rightarrow> at_index t 1)"

text \<open>
  The callback of \<^verbatim>\<open>events.map\<close> in \<^verbatim>\<open>/api/attestations\<close> (lines 192--206); \<open>me\<close> is
  \<^verbatim>\<open>nostrKeys.publicKeyHex\<close>. The comment is \<^verbatim>\<open>find(...)?.[1] || ''\<close>: the empty string
  when the tag or its value is missing.
\<close>

definition toAttestation :: "string \<Rightarrow> event \<Rightarrow> attestation" where
  "toAttestation me e =
     (let target = find_tag_value (\<lambda>t. at_index t 0 = Some ''p'') (tags e);
          type = find_tag_value (\<lambda>t. at_index t 0 = Some ''l'' \<and> at_index t 2 = Some ''ai.wot'') (tags e);
          comment = (case find_tag_value (\<lambda>t. at_index t 0 = Some ''comment'') (tags e) of
                       None \<Rightarrow> '''' | Some c \<Rightarrow> c)
      in \<lparr> att_id = event_id e, att_from = pubkey e, att_to = target, att_type = type,
           att_comment = comment, att_timestamp = created_at e,
           att_direction = (if pubkey e = me then Given else Received) \<rparr>)"

text \<open>
  \<^verbatim>\<open>Array.prototype.sort(cmp)\<close>. ECMAScript requires the sort to be stable and, for a
  consistent comparator, to put \<open>a\<close> before \<open>b\<close> when \<open>cmp a b < 0\<close>; every such sort
  returns the same array, so it is modelled by a stable insertion sort driven by the
  comparator: an element is placed in front of the first element it does not have to
  follow.
\<close>

fun sort_insert :: "('a \<Rightarrow> 'a \<Rightarrow> int) \<Rightarrow> 'a \<Rightarrow> 'a list \<Rightarrow> 'a list" where
  "sort_insert cmp x [] = [x]"
| "sort_insert cmp x (y # ys) = (if cmp x y \<le> 0 then x # y # ys else y # sort_insert cmp x ys)"

definition array_sort :: "('a \<Rightarrow> 'a \<Rightarrow> int) \<Rightarrow> 'a list \<Rightarrow> 'a list" where
  "array_sort cmp xs = foldr (sort_insert cmp) xs []"

text \<open>
  The event processing of \<^verbatim>\<open>/api/attestations\<close> (lines 192--214): map, sort by
  \<^verbatim>\<open>(a, b) => b.timestamp - a.timestamp\<close>, then one \<^verbatim>\<open>filter\<close> per direction.
\<close>

definition processEvents :: "string \<Rightarrow> event list \<Rightarrow> attestation_batch" where
  "processEvents me events =
     (let attestations = array_sort (\<lambda>a b. att_timestamp b - att_timestamp a)
                           (map (toAttestation me) events)
      in \<lparr> received = filter (\<lambda>a. att_direction a = Received) attestations,
           given = filter (\<lambda>a. att_direction a = Given) attestations \<rparr>)"

subsection \<open>DVM activity\<close>

record dvm_result =
  res_id :: string
  res_timestamp :: int
  contentPreview :: js_string

record dvm_response =
  recentResults :: "dvm_result list"
  count' :: nat

text \<open>\<^verbatim>\<open>s.slice(start, end)\<close> for \<open>0 \<le> start\<close> and \<open>0 \<le> end\<close>.\<close>

definition slice :: "js_string \<Rightarrow> nat \<Rightarrow> nat \<Rightarrow> js_string" where
  "slice s start end' = drop start (take end' s)"

text \<open>
  The callback of \<^verbatim>\<open>events.map\<close> in \<^verbatim>\<open>/api/dvm\<close> (lines 279--283):
  \<^verbatim>\<open>e.content.slice(0, 100) + (e.content.length > 100 ? '...' : '')\<close>. The suffix is three
  full stops (code unit \<open>0x2E\<close>).
\<close>

definition dvmResult :: "event \<Rightarrow> dvm_result" where
  "dvmResult e =
     \<lparr> res_id = event_id e, res_timestamp = created_at e,
       contentPreview = slice (content e) 0 100
                          @ (if length (content e) > 100 then [0x2E, 0x2E, 0x2E] else []) \<rparr>"

text \<open>The response of \<^verbatim>\<open>/api/dvm\<close> (lines 285--288).\<close>

definition dvmResponse :: "event list \<Rightarrow> dvm_response" where
  "dvmResponse events =
     (let results = map dvmResult events
      in \<lparr> recentResults = results, count' = length results \<rparr>)"

subsection \<open>The history file\<close>

record point =
  timestamp :: int
  value' :: int

type_synonym series = "point list"

text \<open>
  A history mapping is a JavaScript object whose properties are series; the association
  list keeps the properties in insertion order. \<^const>\<open>map_of\<close> reads a property and
  \<^const>\<open>AList.update\<close> assigns one (in place when it exists, at the end otherwise).
  Only own properties are modelled: the callers pass the keys \<^verbatim>\<open>'wallet'\<close> and
  \<^verbatim>\<open>'trust'\<close>, which no prototype defines.
\<close>

type_synonym history = "(string \<times> series) list"

text \<open>
  What \<^verbatim>\<open>JSON.parse\<close> can return for the history file. Objects are restricted to the
  snapshot format \<^verbatim>\<open>{key: [{timestamp, value}, ...], ...}\<close>; the other JSON values are
  kept because \<^verbatim>\<open>loadHistory\<close> does not check what it parsed. An object outside the
  snapshot format (a property that is not an array, an array element that is not a
  point) has no counterpart here: every statement about \<^verbatim>\<open>JObj\<close> below is a statement
  about snapshots in that format, and none speaks about the other objects.
\<close>

datatype jsvalue = JNull | JBool bool | JNum int | JStr string | JArr "jsvalue list" | JObj history

text \<open>
  The content of \<^verbatim>\<open>HISTORY_FILE\<close>: text that is not JSON, or text that parses to a
  value. The disk holds the file or not (\<^const>\<open>None\<close>: missing or unreadable). A JSON
  text is identified with the value it parses to, so two texts that parse alike are one
  content here, and \<^verbatim>\<open>JSON.stringify\<close> of a value is the content that parses to it. How
  \<^verbatim>\<open>JSON.parse\<close> rounds a number literal or treats a repeated key, and how
  \<^verbatim>\<open>JSON.stringify\<close> prints a number or lays out the text, lies below this model: it
  tells which value a later load returns, and nothing about the characters of the file.
\<close>

datatype file_text = NotJson | JsonText jsvalue

type_synonym disk = "file_text option"

datatype exn = IOError | SyntaxError | TypeError

definition readFileSync :: "disk \<Rightarrow> exn + file_text" where
  "readFileSync d = (case d of None \<Rightarrow> Inl IOError | Some s \<Rightarrow> Inr s)"

definition JSON_parse :: "file_text \<Rightarrow> exn + jsvalue" where
  "JSON_parse s = (case s of NotJson \<Rightarrow> Inl SyntaxError | JsonText v \<Rightarrow> Inr v)"

definition JSON_stringify :: "jsvalue \<Rightarrow> file_text" where
  "JSON_stringify v = JsonText v"

definition writeFileSync :: "file_text \<Rightarrow> disk \<Rightarrow> disk" where
  "writeFileSync s d = Some s"

text \<open>The literal \<^verbatim>\<open>{ wallet: [], trust: [] }\<close> of the \<^verbatim>\<open>catch\<close> branch.\<close>

definition defaultHistory :: jsvalue where
  "defaultHistory = JObj [(''wallet'', []), (''trust'', [])]"

text \<open>
  \<^verbatim>\<open>loadHistory\<close> (lines 29--35):
  \<^verbatim>\<open>try { return JSON.parse(fs.readFileSync(HISTORY_FILE, 'utf8')); } catch { return {...}; }\<close>
\<close>

definition loadHistory :: "disk \<Rightarrow> jsvalue" where
  "loadHistory d =
     (case readFileSync d of
        Inl e \<Rightarrow> defaultHistory
      | Inr s \<Rightarrow> (case JSON_parse s of Inl e \<Rightarrow> defaultHistory | Inr v \<Rightarrow> v))"

text \<open>\<^verbatim>\<open>saveHistory\<close> (lines 37--39).\<close>

definition saveHistory :: "jsvalue \<Rightarrow> disk \<Rightarrow> disk" where
  "saveHistory history d = writeFileSync (JSON_stringify history) d"

text \<open>\<^verbatim>\<open>history[key]\<close> read as an array; the empty array stands for a missing property.\<close>

definition series_of :: "history \<Rightarrow> string \<Rightarrow> series" where
  "series_of h key = (case map_of h key of None \<Rightarrow> [] | Some s \<Rightarrow> s)"

text \<open>
  \<^verbatim>\<open>addHistoryPoint(key, value)\<close> (lines 41--54), with the reading \<open>now\<close> of
  \<^verbatim>\<open>Date.now()\<close>. On a history mapping the four statements are \<open>h1\<close> (create the series
  when \<^verbatim>\<open>!history[key]\<close>), \<open>h2\<close> (\<^verbatim>\<open>push\<close>), \<open>h3\<close> (\<^verbatim>\<open>filter\<close>) and the save.
  On the other values JavaScript behaves as follows.
  \<^item> \<^verbatim>\<open>null\<close>: \<^verbatim>\<open>history[key]\<close> throws a \<^verbatim>\<open>TypeError\<close>.
  \<^item> A boolean, number or string: \<^verbatim>\<open>history[key]\<close> has no array to offer, the assignment
    to a property of a primitive is ignored (the file is not in strict mode), and
    \<^verbatim>\<open>history[key].push\<close> throws a \<^verbatim>\<open>TypeError\<close>.
  \<^item> An array: it is an object, so the series is created, extended and filtered as a
    named property of the array; \<^verbatim>\<open>JSON.stringify\<close> writes the indexed elements of an
    array only, so the file is written back with the same array and without the point.
\<close>

definition addHistoryPoint :: "string \<Rightarrow> int \<Rightarrow> int \<Rightarrow> disk \<Rightarrow> exn + disk" where
  "addHistoryPoint key v now d =
     (case loadHistory d of
        JObj h \<Rightarrow>
          (let h1 = (if map_of h key = None then AList.update key [] h else h);
               h2 = AList.update key (series_of h1 key @ [\<lparr>timestamp = now, value' = v\<rparr>]) h1;
               weekAgo = now - 7 * 24 * 60 * 60 * 1000;
               h3 = AList.update key (filter (\<lambda>p. timestamp p > weekAgo) (series_of h2 key)) h2
           in Inr (saveHistory (JObj h3) d))
      | JArr xs \<Rightarrow> Inr (saveHistory (JArr xs) d)
      | JNull \<Rightarrow> Inl TypeError
      | JBool b \<Rightarrow> Inl TypeError
      | JNum n \<Rightarrow> Inl TypeError
      | JStr s \<Rightarrow> Inl TypeError)"

subsection \<open>The hourly throttle\<close>

text \<open>
  \<^verbatim>\<open>history.wallet?.[history.wallet.length - 1]\<close> (line 101; line 135 for \<^verbatim>\<open>trust\<close>):
  the last point of the series, \<^verbatim>\<open>undefined\<close> when the property is missing or the
  array is empty, a \<^verbatim>\<open>TypeError\<close> when the history is \<^verbatim>\<open>null\<close>.
\<close>

definition lastPoint :: "jsvalue \<Rightarrow> string \<Rightarrow> exn + point option" where
  "lastPoint history key =
     (case history of
        JNull \<Rightarrow> Inl TypeError
      | JObj h \<Rightarrow>
          (case map_of h key of
             None \<Rightarrow> Inr None
           | Some s \<Rightarrow> Inr (if s = [] then None else Some (last s)))
      | JBool b \<Rightarrow> Inr None
      | JNum n \<Rightarrow> Inr None
      | JStr s \<Rightarrow> Inr None
      | JArr xs \<Rightarrow> Inr None)"

text \<open>
  The throttle block of \<^verbatim>\<open>/api/wallet\<close> (lines 99--105) and of \<^verbatim>\<open>/api/trust\<close>
  (lines 134--139), which differ in the key only:
  \<^verbatim>\<open>if (!last || last.timestamp < hourAgo) addHistoryPoint(key, value)\<close>.
  The clock is read twice: \<open>now\<close> for \<^verbatim>\<open>hourAgo\<close> and \<open>now'\<close> inside
  \<^verbatim>\<open>addHistoryPoint\<close>.
\<close>

definition trackHistory :: "string \<Rightarrow> int \<Rightarrow> int \<Rightarrow> int \<Rightarrow> disk \<Rightarrow> exn + disk" where
  "trackHistory key v now now' d =
     (let history = loadHistory d in
      case lastPoint history key of
        Inl e \<Rightarrow> Inl e
      | Inr lastp \<Rightarrow>
          (let hourAgo = now - 60 * 60 * 1000 in
           if (case lastp of None \<Rightarrow> True | Some p \<Rightarrow> timestamp p < hourAgo)
           then addHistoryPoint key v now' d
           else Inr d))"

text \<open>The JSON values that are not JavaScript objects: \<^verbatim>\<open>null\<close> and the primitives.\<close>

definition is_primitive :: "jsvalue \<Rightarrow> bool" where
  "is_primitive v =
     (case v of JNull \<Rightarrow> True | JBool b \<Rightarrow> True | JNum n \<Rightarrow> True | JStr s \<Rightarrow> True
      | JArr xs \<Rightarrow> False | JObj h \<Rightarrow> False)"


section \<open>The attestation classifier\<close>

subsection \<open>The comparator sort is the stable sort by descending timestamp\<close>

lemma sort_insert_insort_key:
  "sort_insert (\<lambda>a b. k b - k a) x ys = insort_key (\<lambda>a. - k a) x ys"
  for k :: "'a \<Rightarrow> int"
  by (induction ys) auto

lemma array_sort_sort_key:
  "array_sort (\<lambda>a b. k b - k a) xs = sort_key (\<lambda>a. - k a) xs"
  for k :: "'a \<Rightarrow> int"
  by (induction xs) (simp_all add: array_sort_def sort_insert_insort_key)

lemma sorted_desc_sort_key:
  "sorted_wrt (\<lambda>a b. k b \<le> k a) (sort_key (\<lambda>a. - k a) xs)"
  for k :: "'a \<Rightarrow> int"
proof -
  have "sorted (map (\<lambda>a. - k a) (sort_key (\<lambda>a. - k a) xs))"
    by (rule sorted_sort_key)
  then show ?thesis
    by (simp add: sorted_map)
qed

lemma direction_toAttestation:
  "att_direction (toAttestation me e) = Given \<longleftrightarrow> pubkey e = me"
  "att_direction (toAttestation me e) = Received \<longleftrightarrow> pubkey e \<noteq> me"
  "att_timestamp (toAttestation me e) = created_at e"
  by (simp_all add: toAttestation_def Let_def)

text \<open>Filtering by direction after the sort is sorting the attestations of that direction.\<close>

lemma given_processEvents:
  "given (processEvents me es) =
     sort_key (\<lambda>a. - att_timestamp a) (map (toAttestation me) (filter (\<lambda>e. pubkey e = me) es))"
  by (simp add: processEvents_def Let_def array_sort_sort_key filter_sort filter_map
      o_def direction_toAttestation)

lemma received_processEvents:
  "received (processEvents me es) =
     sort_key (\<lambda>a. - att_timestamp a) (map (toAttestation me) (filter (\<lambda>e. pubkey e \<noteq> me) es))"
  by (simp add: processEvents_def Let_def array_sort_sort_key filter_sort filter_map
      o_def direction_toAttestation)

text \<open>
  A run of the classifier: first-match tag lookup (the third event's first \<^verbatim>\<open>p\<close> tag has
  no value), the label namespace check, and two received attestations with one timestamp.
\<close>

lemma processEvents_example:
  "processEvents ''me''
     [\<lparr> event_id = ''a'', pubkey = ''me'', created_at = 10,
         tags = [[''p'', ''bob''], [''l'', ''service-quality'', ''ai.wot''], [''comment'', ''good'']],
         content = [] \<rparr>,
      \<lparr> event_id = ''b'', pubkey = ''bob'', created_at = 20,
         tags = [[''l'', ''x'', ''other''], [''p'', ''me''], [''p'', ''you'']], content = [] \<rparr>,
      \<lparr> event_id = ''c'', pubkey = ''carol'', created_at = 20,
         tags = [[], [''p''], [''p'', ''me'']], content = [] \<rparr>]
   = \<lparr> received =
         [\<lparr> att_id = ''b'', att_from = ''bob'', att_to = Some ''me'', att_type = None,
             att_comment = '''', att_timestamp = 20, att_direction = Received \<rparr>,
          \<lparr> att_id = ''c'', att_from = ''carol'', att_to = None, att_type = None,
             att_comment = '''', att_timestamp = 20, att_direction = Received \<rparr>],
       given =
         [\<lparr> att_id = ''a'', att_from = ''me'', att_to = Some ''bob'',
             att_type = Some ''service-quality'', att_comment = ''good'', att_timestamp = 10,
             att_direction = Given \<rparr>] \<rparr>"
  by (simp add: processEvents_def toAttestation_def find_tag_value_def at_index_def array_sort_def)

subsection \<open>The classifier partitions the batch\<close>

text \<open>
  C1. For every batch of events and every reference identity, \<open>given\<close> holds exactly the
  attestations of the events whose pubkey is the reference identity, \<open>received\<close> exactly
  those of the other events (as multisets: each attestation as often as its event
  occurs), and the two lengths add up to the length of the batch.
\<close>

theorem processEvents_partition:
  "mset (given (processEvents me es)) = mset (map (toAttestation me) (filter (\<lambda>e. pubkey e = me) es))
   \<and> mset (received (processEvents me es)) = mset (map (toAttestation me) (filter (\<lambda>e. pubkey e \<noteq> me) es))
   \<and> length (given (processEvents me es)) + length (received (processEvents me es)) = length es"
proof -
  have "length (filter (\<lambda>e. pubkey e = me) es) + length (filter (\<lambda>e. pubkey e \<noteq> me) es) = length es"
    by (rule sum_length_filter_compl)
  then show ?thesis
    by (simp add: given_processEvents received_processEvents)
qed

subsection \<open>Both sequences are sorted, newest first, and ties keep the input order\<close>

text \<open>
  C2. Both output sequences are sorted by timestamp in descending order, and for every
  timestamp \<open>t\<close> the attestations with that timestamp stand in the order in which their
  events stood in the input batch.
\<close>

theorem processEvents_sorted_stable:
  "sorted_wrt (\<lambda>a b. att_timestamp b \<le> att_timestamp a) (given (processEvents me es))
   \<and> sorted_wrt (\<lambda>a b. att_timestamp b \<le> att_timestamp a) (received (processEvents me es))
   \<and> filter (\<lambda>a. att_timestamp a = t) (given (processEvents me es))
       = map (toAttestation me) (filter (\<lambda>e. pubkey e = me \<and> created_at e = t) es)
   \<and> filter (\<lambda>a. att_timestamp a = t) (received (processEvents me es))
       = map (toAttestation me) (filter (\<lambda>e. pubkey e \<noteq> me \<and> created_at e = t) es)"
proof -
  have stable: "filter (\<lambda>a. att_timestamp a = t) (sort_key (\<lambda>a. - att_timestamp a) xs)
                  = filter (\<lambda>a. att_timestamp a = t) xs" for xs :: "attestation list"
    using sort_key_stable [of "\<lambda>a. - att_timestamp a" "- t" xs] by simp
  have pick: "filter (\<lambda>a. att_timestamp a = t) (map (toAttestation me) (filter P es))
                = map (toAttestation me) (filter (\<lambda>e. P e \<and> created_at e = t) es)" for P
    by (simp add: filter_map o_def direction_toAttestation conj_commute)
  show ?thesis
    by (simp add: given_processEvents received_processEvents sorted_desc_sort_key stable pick)
qed


section \<open>The history store\<close>

subsection \<open>What the file operations compute\<close>

lemma loadHistory_simps [simp]:
  "loadHistory None = defaultHistory"
  "loadHistory (Some NotJson) = defaultHistory"
  "loadHistory (Some (JsonText v)) = v"
  by (simp_all add: loadHistory_def readFileSync_def JSON_parse_def)

lemma saveHistory_simp [simp]: "saveHistory v d = Some (JsonText v)"
  by (simp add: saveHistory_def writeFileSync_def JSON_stringify_def)

lemma series_of_update [simp]: "series_of (AList.update key s h) key = s"
  by (simp add: series_of_def AList.update_conv')

text \<open>
  On a history mapping \<^const>\<open>addHistoryPoint\<close> always completes, and the three assignments
  amount to one: the series of the key becomes its retained points followed by the new
  point.
\<close>

lemma addHistoryPoint_JObj:
  assumes "loadHistory d = JObj h"
  shows "addHistoryPoint key v now d =
           Inr (Some (JsonText (JObj (AList.update key
             (filter (\<lambda>p. timestamp p > now - 7 * 24 * 60 * 60 * 1000) (series_of h key)
                @ [\<lparr>timestamp = now, value' = v\<rparr>]) h))))"
proof -
  have absent: "series_of h key = []" if "map_of h key = None"
    using that by (simp add: series_of_def)
  show ?thesis
    using assms
    by (simp add: addHistoryPoint_def Let_def absent)
qed

subsection \<open>Retention is per series\<close>

text \<open>
  C3, as stated, fails: a write prunes the series it writes and no other. Here the
  \<^verbatim>\<open>wallet\<close> series holds a point of time \<open>0\<close>; a write to \<^verbatim>\<open>trust\<close> at time \<open>10^12\<close>
  leaves it in the file, although \<open>0\<close> is not later than \<open>10^12\<close> minus seven days.
\<close>

theorem addHistoryPoint_other_series_counterexample:
  "addHistoryPoint ''trust'' 5 1000000000000
     (Some (JsonText (JObj [(''wallet'', [\<lparr>timestamp = 0, value' = 1\<rparr>]), (''trust'', [])])))
   = Inr (Some (JsonText (JObj [(''wallet'', [\<lparr>timestamp = 0, value' = 1\<rparr>]),
                                 (''trust'', [\<lparr>timestamp = 1000000000000, value' = 5\<rparr>])])))
   \<and> \<not> timestamp \<lparr>timestamp = 0, value' = 1\<rparr> > 1000000000000 - 7 * 24 * 60 * 60 * 1000"
  by (simp add: addHistoryPoint_def Let_def series_of_def)

text \<open>
  C3, amended. After \<^verbatim>\<open>addHistoryPoint(key, v)\<close> at time \<open>now\<close> on a history mapping,
  every point of the series that was written is later than \<open>now\<close> minus seven days, and
  every other series is exactly what it was before the call.
\<close>

theorem addHistoryPoint_prunes_written_series:
  assumes "loadHistory d = JObj h"
  shows "\<exists>h'. addHistoryPoint key v now d = Inr (Some (JsonText (JObj h')))
           \<and> (\<forall>p \<in> set (series_of h' key). timestamp p > now - 7 * 24 * 60 * 60 * 1000)
           \<and> (\<forall>k. k \<noteq> key \<longrightarrow> map_of h' k = map_of h k)"
  using addHistoryPoint_JObj [OF assms, of key v now]
  by (auto simp add: AList.update_conv')

theorem addHistoryPoint_prunes_written_series_witness:
  "loadHistory (Some (JsonText (JObj [(''wallet'', [\<lparr>timestamp = 0, value' = 1\<rparr>]), (''trust'', [])])))
     = JObj [(''wallet'', [\<lparr>timestamp = 0, value' = 1\<rparr>]), (''trust'', [])]
   \<and> (\<exists>h'. addHistoryPoint ''trust'' 5 1000000000000
              (Some (JsonText (JObj [(''wallet'', [\<lparr>timestamp = 0, value' = 1\<rparr>]), (''trust'', [])])))
              = Inr (Some (JsonText (JObj h')))
           \<and> (\<forall>p \<in> set (series_of h' ''trust''). timestamp p > 1000000000000 - 7 * 24 * 60 * 60 * 1000)
           \<and> (\<forall>k. k \<noteq> ''trust'' \<longrightarrow>
                 map_of h' k = map_of [(''wallet'', [\<lparr>timestamp = 0, value' = 1\<rparr>]), (''trust'', [])] k))"
proof -
  have h: "loadHistory (Some (JsonText (JObj [(''wallet'', [\<lparr>timestamp = 0, value' = 1\<rparr>]), (''trust'', [])])))
             = JObj [(''wallet'', [\<lparr>timestamp = 0, value' = 1\<rparr>]), (''trust'', [])]"
    by simp
  from h addHistoryPoint_prunes_written_series [OF h, of "''trust''" 5 1000000000000]
  show ?thesis by blast
qed

subsection \<open>Retention and order of the written series\<close>

text \<open>
  C7. After \<^verbatim>\<open>addHistoryPoint(key, v)\<close> at time \<open>now\<close> on a history mapping, the series of
  the key is the retained part of the old series (none when the key was absent), in
  its old order, followed by the new point: no point of it has a timestamp at or before
  \<open>now\<close> minus seven days, and the new point is its last.
\<close>

theorem addHistoryPoint_retention:
  assumes "loadHistory d = JObj h"
  shows "\<exists>s'. addHistoryPoint key v now d = Inr (Some (JsonText (JObj (AList.update key s' h))))
           \<and> s' = filter (\<lambda>p. timestamp p > now - 7 * 24 * 60 * 60 * 1000) (series_of h key)
                    @ [\<lparr>timestamp = now, value' = v\<rparr>]
           \<and> map_of (AList.update key s' h) key = Some s'
           \<and> (\<forall>p \<in> set s'. \<not> timestamp p \<le> now - 7 * 24 * 60 * 60 * 1000)
           \<and> last s' = \<lparr>timestamp = now, value' = v\<rparr>"
  using addHistoryPoint_JObj [OF assms, of key v now]
  by (auto simp add: AList.update_conv')

text \<open>
  A week-old point (exactly at the cut-off) is dropped, a younger one is kept, the new
  one is appended.
\<close>

theorem addHistoryPoint_retention_witness:
  "loadHistory (Some (JsonText (JObj
       [(''wallet'', [\<lparr>timestamp = 999395200000, value' = 1\<rparr>, \<lparr>timestamp = 999999999000, value' = 2\<rparr>]),
        (''trust'', [])])))
     = JObj [(''wallet'', [\<lparr>timestamp = 999395200000, value' = 1\<rparr>, \<lparr>timestamp = 999999999000, value' = 2\<rparr>]),
             (''trust'', [])]
   \<and> addHistoryPoint ''wallet'' 2100 1000000000000
        (Some (JsonText (JObj
          [(''wallet'', [\<lparr>timestamp = 999395200000, value' = 1\<rparr>, \<lparr>timestamp = 999999999000, value' = 2\<rparr>]),
           (''trust'', [])])))
       = Inr (Some (JsonText (JObj
           [(''wallet'', [\<lparr>timestamp = 999999999000, value' = 2\<rparr>, \<lparr>timestamp = 1000000000000, value' = 2100\<rparr>]),
            (''trust'', [])])))"
proof -
  let ?h = "[(''wallet'', [\<lparr>timestamp = 999395200000, value' = 1\<rparr>, \<lparr>timestamp = 999999999000, value' = 2\<rparr>]),
             (''trust'', [])]"
  have h: "loadHistory (Some (JsonText (JObj ?h))) = JObj ?h"
    by simp
  have s: "series_of ?h ''wallet''
             = [\<lparr>timestamp = 999395200000, value' = 1\<rparr>, \<lparr>timestamp = 999999999000, value' = 2\<rparr>]"
    by (simp add: series_of_def)
  from h addHistoryPoint_retention [OF h, of "''wallet''" 2100 1000000000000]
  show ?thesis by (auto simp add: s)
qed

subsection \<open>Loading never fails\<close>

text \<open>
  C6. \<^const>\<open>loadHistory\<close> returns a value on every state of the disk (its result type has
  no exception). When reading the file fails (missing or unreadable) or parsing it
  fails (corrupt), the value is the empty mapping \<^verbatim>\<open>{wallet: [], trust: []}\<close>. A write
  then replaces whatever the file held: what is saved is what the next load returns,
  and \<^verbatim>\<open>addHistoryPoint\<close> completes and leaves a snapshot built from the empty mapping.
\<close>

theorem loadHistory_falls_back:
  assumes "(\<exists>e. readFileSync d = Inl e) \<or> (\<exists>s e. readFileSync d = Inr s \<and> JSON_parse s = Inl e)"
  shows "loadHistory d = JObj [(''wallet'', []), (''trust'', [])]
       \<and> saveHistory v d = Some (JsonText v)
       \<and> loadHistory (saveHistory v d) = v
       \<and> addHistoryPoint key x now d
           = Inr (Some (JsonText (JObj (AList.update key [\<lparr>timestamp = now, value' = x\<rparr>]
                                          [(''wallet'', []), (''trust'', [])]))))"
proof -
  from assms have load: "loadHistory d = JObj [(''wallet'', []), (''trust'', [])]"
    by (auto simp add: loadHistory_def defaultHistory_def)
  have "series_of [(''wallet'', []), (''trust'', [])] key = []"
    by (simp add: series_of_def)
  with addHistoryPoint_JObj [OF load, of key x now] load show ?thesis
    by simp
qed

theorem loadHistory_falls_back_witness:
  "readFileSync None = Inl IOError
   \<and> loadHistory None = JObj [(''wallet'', []), (''trust'', [])]
   \<and> readFileSync (Some NotJson) = Inr NotJson \<and> JSON_parse NotJson = Inl SyntaxError
   \<and> loadHistory (Some NotJson) = JObj [(''wallet'', []), (''trust'', [])]
   \<and> addHistoryPoint ''wallet'' 2100 1000000000000 (Some NotJson)
       = Inr (Some (JsonText (JObj [(''wallet'', [\<lparr>timestamp = 1000000000000, value' = 2100\<rparr>]),
                                     (''trust'', [])])))"
proof -
  have absent: "readFileSync None = Inl IOError"
    by (simp add: readFileSync_def)
  have corrupt: "readFileSync (Some NotJson) = Inr NotJson \<and> JSON_parse NotJson = Inl SyntaxError"
    by (simp add: readFileSync_def JSON_parse_def)
  have a: "(\<exists>e. readFileSync None = Inl e) \<or> (\<exists>s e. readFileSync None = Inr s \<and> JSON_parse s = Inl e)"
    using absent by blast
  have c: "(\<exists>e. readFileSync (Some NotJson) = Inl e)
             \<or> (\<exists>s e. readFileSync (Some NotJson) = Inr s \<and> JSON_parse s = Inl e)"
    using corrupt by blast
  from absent corrupt
    loadHistory_falls_back [OF a, of JNull "''wallet''" 0 0]
    loadHistory_falls_back [OF c, of JNull "''wallet''" 2100 1000000000000]
  show ?thesis by simp
qed

subsection \<open>Snapshots that are not mappings\<close>

text \<open>
  C10, as stated, fails for a JSON array, which is valid JSON and not a JSON object:
  \<^const>\<open>loadHistory\<close> returns it unchanged, but \<^verbatim>\<open>addHistoryPoint\<close> does not throw on it. It
  writes the same array back, and the point is lost.
\<close>

theorem addHistoryPoint_array_counterexample:
  "loadHistory (Some (JsonText (JArr []))) = JArr []
   \<and> addHistoryPoint ''wallet'' 2100 1000000000000 (Some (JsonText (JArr [])))
       = Inr (Some (JsonText (JArr [])))"
  by (simp add: addHistoryPoint_def)

text \<open>
  C10, amended. Whatever value the file parses to, \<^const>\<open>loadHistory\<close> returns that value
  unchanged. When the value is \<^verbatim>\<open>null\<close>, a boolean, a number or a string,
  \<^verbatim>\<open>addHistoryPoint\<close> on that state throws a \<^verbatim>\<open>TypeError\<close>. When the value is an array,
  whatever its elements, \<^verbatim>\<open>addHistoryPoint\<close> does not throw and writes that same array
  back, so the point is lost. Hence append can complete only for a snapshot that parses
  to an object or to an array.
\<close>

theorem addHistoryPoint_non_object:
  "loadHistory (Some (JsonText v)) = v
   \<and> (is_primitive v \<longrightarrow> addHistoryPoint key x now (Some (JsonText v)) = Inl TypeError)
   \<and> addHistoryPoint key x now (Some (JsonText (JArr xs))) = Inr (Some (JsonText (JArr xs)))"
  by (cases v) (simp_all add: addHistoryPoint_def is_primitive_def)

text \<open>
  The number \<open>5\<close> and \<^verbatim>\<open>null\<close> as snapshots make the append throw; the array
  \<^verbatim>\<open>[1, "a"]\<close> is written back as it was.
\<close>

theorem addHistoryPoint_non_object_witness:
  "is_primitive (JNum 5)
   \<and> loadHistory (Some (JsonText (JNum 5))) = JNum 5
   \<and> addHistoryPoint ''wallet'' 2100 1000000000000 (Some (JsonText (JNum 5))) = Inl TypeError
   \<and> is_primitive JNull
   \<and> loadHistory (Some (JsonText JNull)) = JNull
   \<and> addHistoryPoint ''trust'' 60 1000000000000 (Some (JsonText JNull)) = Inl TypeError
   \<and> loadHistory (Some (JsonText (JArr [JNum 1, JStr ''a'']))) = JArr [JNum 1, JStr ''a'']
   \<and> addHistoryPoint ''wallet'' 2100 1000000000000 (Some (JsonText (JArr [JNum 1, JStr ''a''])))
       = Inr (Some (JsonText (JArr [JNum 1, JStr ''a''])))"
proof -
  have num: "is_primitive (JNum 5)" and null: "is_primitive JNull"
    by (simp_all add: is_primitive_def)
  from num null
    addHistoryPoint_non_object [of "JNum 5" "''wallet''" 2100 1000000000000 "[JNum 1, JStr ''a'']"]
    addHistoryPoint_non_object [of JNull "''trust''" 60 1000000000000 "[]"]
    addHistoryPoint_non_object [of "JArr [JNum 1, JStr ''a'']" "''wallet''" 2100 1000000000000 "[]"]
  show ?thesis by simp
qed


section \<open>The throttled sampler\<close>

lemma lastPoint_JObj:
  "lastPoint (JObj h) key = Inr (if series_of h key = [] then None else Some (last (series_of h key)))"
  by (simp add: lastPoint_def series_of_def split: option.splits)

text \<open>
  A successful sample makes the same sample a no-op: either nothing was written, or the
  point just written is the last of its series and not an hour old.
\<close>

lemma trackHistory_idem:
  assumes "t \<le> t'" and "trackHistory key v t t' d = Inr d1"
  shows "trackHistory key v t t' d1 = Inr d1"
proof (cases "loadHistory d")
  case (JObj h)
  show ?thesis
  proof (cases "series_of h key \<noteq> [] \<and> t - 60 * 60 * 1000 \<le> timestamp (last (series_of h key))")
    case True
    with JObj assms(2) have "d1 = d"
      by (auto simp add: trackHistory_def lastPoint_JObj Let_def)
    with assms(2) show ?thesis by simp
  next
    case False
    with JObj assms(2) have "addHistoryPoint key v t' d = Inr d1"
      by (auto simp add: trackHistory_def lastPoint_JObj Let_def split: if_splits)
    then have d1: "d1 = Some (JsonText (JObj (AList.update key
             (filter (\<lambda>p. timestamp p > t' - 7 * 24 * 60 * 60 * 1000) (series_of h key)
                @ [\<lparr>timestamp = t', value' = v\<rparr>]) h)))"
      using addHistoryPoint_JObj [OF JObj, of key v t'] by simp
    show ?thesis
      using assms(1) by (simp add: d1 trackHistory_def lastPoint_JObj Let_def)
  qed
next
  case (JArr xs)
  with assms(2) have "d1 = Some (JsonText (JArr xs))"
    by (auto simp add: trackHistory_def lastPoint_def addHistoryPoint_def Let_def)
  then show ?thesis
    by (simp add: trackHistory_def lastPoint_def addHistoryPoint_def Let_def)
qed (use assms(2) in \<open>simp_all add: trackHistory_def lastPoint_def addHistoryPoint_def Let_def\<close>)

text \<open>
  C4. Let \<open>t\<close> be the clock reading of the throttle check and \<open>t'\<close> the later reading
  inside \<^verbatim>\<open>addHistoryPoint\<close> (the claim's single time is the case \<open>t' = t\<close>). On a history
  mapping:
  \<^item> if the series of the key has a last point and its timestamp is not before
    \<open>t\<close> minus one hour, the sample changes nothing;
  \<^item> if the series has no last point, or its last point is before \<open>t\<close> minus one hour,
    exactly one point, with the value and the time of the append, is added at the end
    of the series (after the points that retention keeps), and no other series changes;
  \<^item> sampling a second time with the same readings changes nothing more, so two calls
    store one point in total.
\<close>

theorem trackHistory_throttle:
  assumes "loadHistory d = JObj h" and "t \<le> t'"
  shows "(series_of h key \<noteq> [] \<and> t - 60 * 60 * 1000 \<le> timestamp (last (series_of h key))
            \<longrightarrow> trackHistory key v t t' d = Inr d)
       \<and> (series_of h key = [] \<or> timestamp (last (series_of h key)) < t - 60 * 60 * 1000
            \<longrightarrow> (\<exists>h'. trackHistory key v t t' d = Inr (Some (JsonText (JObj h')))
                   \<and> series_of h' key
                       = filter (\<lambda>p. timestamp p > t' - 7 * 24 * 60 * 60 * 1000) (series_of h key)
                         @ [\<lparr>timestamp = t', value' = v\<rparr>]
                   \<and> (\<forall>k. k \<noteq> key \<longrightarrow> series_of h' k = series_of h k)))
       \<and> (\<forall>d1. trackHistory key v t t' d = Inr d1 \<longrightarrow> trackHistory key v t t' d1 = Inr d1)"
proof (intro conjI impI allI)
  assume "series_of h key \<noteq> [] \<and> t - 60 * 60 * 1000 \<le> timestamp (last (series_of h key))"
  then show "trackHistory key v t t' d = Inr d"
    using assms(1) by (simp add: trackHistory_def lastPoint_JObj Let_def)
next
  assume "series_of h key = [] \<or> timestamp (last (series_of h key)) < t - 60 * 60 * 1000"
  then have "trackHistory key v t t' d = addHistoryPoint key v t' d"
    using assms(1) by (auto simp add: trackHistory_def lastPoint_JObj Let_def)
  then show "\<exists>h'. trackHistory key v t t' d = Inr (Some (JsonText (JObj h')))
                   \<and> series_of h' key
                       = filter (\<lambda>p. timestamp p > t' - 7 * 24 * 60 * 60 * 1000) (series_of h key)
                         @ [\<lparr>timestamp = t', value' = v\<rparr>]
                   \<and> (\<forall>k. k \<noteq> key \<longrightarrow> series_of h' k = series_of h k)"
    using addHistoryPoint_JObj [OF assms(1), of key v t']
    by (auto simp add: series_of_def AList.update_conv')
next
  fix d1
  assume "trackHistory key v t t' d = Inr d1"
  then show "trackHistory key v t t' d1 = Inr d1"
    using assms(2) by (rule trackHistory_idem [rotated])
qed

text \<open>
  The series \<^verbatim>\<open>trust\<close> holds one point of time \<open>0\<close> and value \<open>50\<close>. A sample of \<open>60\<close> at
  time \<open>1000\<close> adds nothing; a sample at time \<open>3700000\<close> adds the second point, and a
  repeated sample at that time adds nothing more.
\<close>

theorem trackHistory_throttle_witness:
  "loadHistory (Some (JsonText (JObj [(''trust'', [\<lparr>timestamp = 0, value' = 50\<rparr>])])))
     = JObj [(''trust'', [\<lparr>timestamp = 0, value' = 50\<rparr>])]
   \<and> trackHistory ''trust'' 60 1000 1000
         (Some (JsonText (JObj [(''trust'', [\<lparr>timestamp = 0, value' = 50\<rparr>])])))
       = Inr (Some (JsonText (JObj [(''trust'', [\<lparr>timestamp = 0, value' = 50\<rparr>])])))
   \<and> (\<exists>h'. trackHistory ''trust'' 60 3700000 3700000
               (Some (JsonText (JObj [(''trust'', [\<lparr>timestamp = 0, value' = 50\<rparr>])])))
             = Inr (Some (JsonText (JObj h')))
           \<and> series_of h' ''trust''
               = [\<lparr>timestamp = 0, value' = 50\<rparr>, \<lparr>timestamp = 3700000, value' = 60\<rparr>]
           \<and> trackHistory ''trust'' 60 3700000 3700000 (Some (JsonText (JObj h')))
               = Inr (Some (JsonText (JObj h'))))"
proof -
  let ?h = "[(''trust'', [\<lparr>timestamp = 0, value' = 50\<rparr>])]"
  let ?d = "Some (JsonText (JObj ?h))"
  have h: "loadHistory ?d = JObj ?h"
    by simp
  have s: "series_of ?h ''trust'' = [\<lparr>timestamp = 0, value' = 50\<rparr>]"
    by (simp add: series_of_def)
  have early: "trackHistory ''trust'' 60 1000 1000 ?d = Inr ?d"
    using trackHistory_throttle [OF h, of 1000 1000 "''trust''" 60] by (simp add: s)
  have late: "\<exists>h'. trackHistory ''trust'' 60 3700000 3700000 ?d = Inr (Some (JsonText (JObj h')))
           \<and> series_of h' ''trust''
               = [\<lparr>timestamp = 0, value' = 50\<rparr>, \<lparr>timestamp = 3700000, value' = 60\<rparr>]
           \<and> trackHistory ''trust'' 60 3700000 3700000 (Some (JsonText (JObj h')))
               = Inr (Some (JsonText (JObj h')))"
    using trackHistory_throttle [OF h, of 3700000 3700000 "''trust''" 60] by (auto simp add: s)
  from h early late show ?thesis by blast
qed


section \<open>DVM activity\<close>

text \<open>
  C9, as stated, fails: nothing is appended to a content of at most 100 code units.
  The content \<^verbatim>\<open>hi\<close> is its own preview, which differs from \<^verbatim>\<open>hi\<close> followed by the
  ellipsis character (code unit \<open>0x2026\<close>) and from \<^verbatim>\<open>hi\<close> followed by three full stops.
\<close>

theorem contentPreview_short_counterexample:
  "contentPreview (dvmResult \<lparr> event_id = ''e1'', pubkey = ''me'', created_at = 1700000000,
                                tags = [], content = [0x68, 0x69] \<rparr>) = [0x68, 0x69]
   \<and> contentPreview (dvmResult \<lparr> event_id = ''e1'', pubkey = ''me'', created_at = 1700000000,
                                  tags = [], content = [0x68, 0x69] \<rparr>)
       \<noteq> take 100 [0x68, 0x69] @ [0x2026]
   \<and> contentPreview (dvmResult \<lparr> event_id = ''e1'', pubkey = ''me'', created_at = 1700000000,
                                  tags = [], content = [0x68, 0x69] \<rparr>)
       \<noteq> take 100 [0x68, 0x69] @ [0x2E, 0x2E, 0x2E]"
  by (simp add: dvmResult_def slice_def)

text \<open>
  C9, amended. The preview of an event is its content when that has at most 100 code
  units, and otherwise its first 100 code units followed by three full stops. The
  response lists one result per collected event, and \<open>count\<close> is the number of results.
\<close>

theorem dvmResponse_preview:
  "contentPreview (dvmResult e)
     = (if length (content e) \<le> 100 then content e
        else take 100 (content e) @ [0x2E, 0x2E, 0x2E])
   \<and> recentResults (dvmResponse es) = map dvmResult es
   \<and> count' (dvmResponse es) = length (recentResults (dvmResponse es))
   \<and> count' (dvmResponse es) = length es"
  by (simp add: dvmResult_def dvmResponse_def slice_def Let_def)

end
